theory Spec2Isabelle
  imports Main "HOL-Library.Word"
begin

section \<open>Data model\<close>

text \<open>
  The \<^verbatim>\<open>Todo\<close> interface of \<^verbatim>\<open>src/pages/Todos.tsx\<close> and the row type of the table
  \<^verbatim>\<open>public.todos\<close> of the migration. A JavaScript string is a sequence of UTF-16 code
  units; a UUID is kept as the string the client sees; a \<^verbatim>\<open>TIMESTAMPTZ\<close> is a number
  of microseconds (the client holds its ISO rendering, a bijection).
  The column \<^verbatim>\<open>id\<close> is called \<open>todo_id\<close> because \<open>id\<close> is the identity function of HOL.
\<close>

type_synonym uuid = string
type_synonym jsstring = "16 word list"
type_synonym timestamptz = int

record todo =
  todo_id :: uuid
  title :: jsstring
  description :: "jsstring option"
  completed :: bool
  created_at :: timestamptz
  updated_at :: timestamptz
  user_id :: uuid

section \<open>The table, its row-level security policies and its trigger\<close>

text \<open>
  A column of a request body: the key is absent, it is \<^verbatim>\<open>null\<close>, or it has a value.
  An absent key of an INSERT takes the column's DEFAULT; an absent key of an UPDATE leaves
  the column as it is.
\<close>

datatype 'a col = Omitted | Null | Val 'a

record todo_values =
  v_id :: "uuid col"
  v_user_id :: "uuid col"
  v_title :: "jsstring col"
  v_description :: "jsstring col"
  v_completed :: "bool col"
  v_created_at :: "timestamptz col"
  v_updated_at :: "timestamptz col"

text \<open>The proposed row, before the NOT NULL constraints are checked: every column is nullable.\<close>

record tuple =
  t_id :: "uuid option"
  t_user_id :: "uuid option"
  t_title :: "jsstring option"
  t_description :: "jsstring option"
  t_completed :: "bool option"
  t_created_at :: "timestamptz option"
  t_updated_at :: "timestamptz option"

text \<open>
  What a statement runs with: \<^verbatim>\<open>auth.uid()\<close> (the identity of the request's token, NULL
  for an anonymous request), \<^verbatim>\<open>now()\<close>, and the value \<^verbatim>\<open>gen_random_uuid()\<close> yields.
\<close>

record session =
  auth_uid :: "uuid option"
  now :: timestamptz
  gen_random_uuid :: uuid

record db =
  auth_users :: "uuid list"
  public_todos :: "todo list"

datatype postgrest_error =
    Insufficient_privilege
  | Not_null_violation
  | Unique_violation
  | Foreign_key_violation
  | Invalid_text_representation
  | Fetch_failed

definition with_default :: "'a option \<Rightarrow> 'a col \<Rightarrow> 'a option" where
  "with_default d c = (case c of Omitted \<Rightarrow> d | Null \<Rightarrow> None | Val x \<Rightarrow> Some x)"

text \<open>Lines 2-10 of the migration: the columns and their defaults.\<close>

definition new_tuple :: "session \<Rightarrow> todo_values \<Rightarrow> tuple" where
  "new_tuple s v =
     \<lparr> t_id = with_default (Some (gen_random_uuid s)) (v_id v),
       t_user_id = with_default None (v_user_id v),
       t_title = with_default None (v_title v),
       t_description = with_default None (v_description v),
       t_completed = with_default (Some False) (v_completed v),
       t_created_at = with_default (Some (now s)) (v_created_at v),
       t_updated_at = with_default (Some (now s)) (v_updated_at v) \<rparr>"

text \<open>The SET list of an UPDATE applied to an existing row.\<close>

definition assign :: "todo \<Rightarrow> todo_values \<Rightarrow> tuple" where
  "assign r v =
     \<lparr> t_id = with_default (Some (todo_id r)) (v_id v),
       t_user_id = with_default (Some (user_id r)) (v_user_id v),
       t_title = with_default (Some (title r)) (v_title v),
       t_description = with_default (description r) (v_description v),
       t_completed = with_default (Some (completed r)) (v_completed v),
       t_created_at = with_default (Some (created_at r)) (v_created_at v),
       t_updated_at = with_default (Some (updated_at r)) (v_updated_at v) \<rparr>"

text \<open>
  The expression of all four policies, \<^verbatim>\<open>auth.uid() = user_id\<close>: in SQL the comparison is
  true only when both sides are non-null and equal.
\<close>

definition policy :: "session \<Rightarrow> uuid option \<Rightarrow> bool" where
  "policy s owner =
     (case auth_uid s of None \<Rightarrow> False
      | Some caller \<Rightarrow> (case owner of None \<Rightarrow> False | Some u \<Rightarrow> caller = u))"

text \<open>The NOT NULL constraints: every column but \<^verbatim>\<open>description\<close>.\<close>

definition not_null :: "tuple \<Rightarrow> todo option" where
  "not_null t =
     (case (t_id t, t_user_id t, t_title t, t_completed t, t_created_at t, t_updated_at t) of
        (Some i, Some u, Some ti, Some c, Some ca, Some ua) \<Rightarrow>
          Some \<lparr> todo_id = i, title = ti, description = t_description t, completed = c,
                 created_at = ca, updated_at = ua, user_id = u \<rparr>
      | _ \<Rightarrow> None)"

text \<open>The trigger function \<^verbatim>\<open>handle_updated_at\<close> (lines 37-43): \<^verbatim>\<open>NEW.updated_at = now()\<close>.\<close>

definition handle_updated_at :: "session \<Rightarrow> tuple \<Rightarrow> tuple" where
  "handle_updated_at s new = new\<lparr>t_updated_at := Some (now s)\<rparr>"

text \<open>
  SELECT: the rows the policy's USING expression lets through, then the statement's WHERE.
  Rows the policy hides are left out without an error.
\<close>

definition pg_select :: "session \<Rightarrow> (todo \<Rightarrow> bool) \<Rightarrow> db \<Rightarrow> todo list" where
  "pg_select s wh d = filter (\<lambda>r. policy s (Some (user_id r)) \<and> wh r) (public_todos d)"

text \<open>
  INSERT of one row: the defaults, then the policy's WITH CHECK on the proposed row, then
  the NOT NULL constraints, the primary key and the foreign key to \<^verbatim>\<open>auth.users\<close>. There
  is no trigger on INSERT. A failed statement leaves the table as it was.
\<close>

definition pg_insert :: "session \<Rightarrow> todo_values \<Rightarrow> db \<Rightarrow> postgrest_error + (todo \<times> db)" where
  "pg_insert s v d =
     (let t = new_tuple s v in
      if \<not> policy s (t_user_id t) then Inl Insufficient_privilege
      else case not_null t of
        None \<Rightarrow> Inl Not_null_violation
      | Some r \<Rightarrow>
          if todo_id r \<in> set (map todo_id (public_todos d)) then Inl Unique_violation
          else if user_id r \<notin> set (auth_users d) then Inl Foreign_key_violation
          else Inr (r, d\<lparr>public_todos := public_todos d @ [r]\<rparr>))"

text \<open>
  UPDATE, row by row: a row is a target when the policy's USING expression and the WHERE
  hold of it. For a target the SET list is applied, the BEFORE UPDATE trigger runs, the
  policy (which has no WITH CHECK of its own, so its USING expression is the check) is
  evaluated on the new row, then the NOT NULL constraints and the primary key against the
  table as it stands. The list \<open>seen\<close> holds the rows already processed. The result
  is the new table and the rows that were updated; an error aborts the whole statement.
  The foreign key needs no check: a new row that passes the policy has the owner of the
  old row.
\<close>

fun pg_update_rows ::
  "session \<Rightarrow> (todo \<Rightarrow> bool) \<Rightarrow> todo_values \<Rightarrow> todo list \<Rightarrow> todo list
     \<Rightarrow> postgrest_error + (todo list \<times> todo list)" where
  "pg_update_rows s wh v seen [] = Inr (seen, [])"
| "pg_update_rows s wh v seen (r # rest) =
     (if policy s (Some (user_id r)) \<and> wh r then
        (let new = handle_updated_at s (assign r v) in
         if \<not> policy s (t_user_id new) then Inl Insufficient_privilege
         else case not_null new of
           None \<Rightarrow> Inl Not_null_violation
         | Some r' \<Rightarrow>
             if todo_id r' \<in> set (map todo_id (seen @ rest)) then Inl Unique_violation
             else (case pg_update_rows s wh v (seen @ [r']) rest of
                     Inl e \<Rightarrow> Inl e
                   | Inr (tbl, upd) \<Rightarrow> Inr (tbl, r' # upd)))
      else pg_update_rows s wh v (seen @ [r]) rest)"

definition pg_update ::
  "session \<Rightarrow> (todo \<Rightarrow> bool) \<Rightarrow> todo_values \<Rightarrow> db \<Rightarrow> postgrest_error + (todo list \<times> db)" where
  "pg_update s wh v d =
     (case pg_update_rows s wh v [] (public_todos d) of
        Inl e \<Rightarrow> Inl e
      | Inr (tbl, upd) \<Rightarrow> Inr (upd, d\<lparr>public_todos := tbl\<rparr>))"

text \<open>DELETE: the rows that pass the policy and the WHERE are removed; no other table refers to them.\<close>

definition pg_delete :: "session \<Rightarrow> (todo \<Rightarrow> bool) \<Rightarrow> db \<Rightarrow> todo list \<times> db" where
  "pg_delete s wh d =
     (filter (\<lambda>r. policy s (Some (user_id r)) \<and> wh r) (public_todos d),
      d\<lparr>public_todos := filter (\<lambda>r. \<not> (policy s (Some (user_id r)) \<and> wh r)) (public_todos d)\<rparr>)"

section \<open>The client of the store\<close>

text \<open>
  What \<^verbatim>\<open>await\<close> on a query of the client library gives: the promise rejects (the
  \<^verbatim>\<open>catch\<close> branch), or it resolves to \<^verbatim>\<open>{ data: null, error }\<close> or to
  \<^verbatim>\<open>{ data, error: null }\<close>.
\<close>

datatype 'd reply = Thrown | Failure postgrest_error | Success 'd

text \<open>
  The four queries \<^verbatim>\<open>Todos.tsx\<close> builds, over a store of any kind \<open>'w\<close>:
  \<^verbatim>\<open>select('*').eq('user_id', u).order('created_at', { ascending: false })\<close>,
  \<^verbatim>\<open>insert([values]).select().single()\<close>,
  \<^verbatim>\<open>update(values).eq('id', i).eq('user_id', u)\<close> and
  \<^verbatim>\<open>delete().eq('id', i).eq('user_id', u)\<close>.
  The value \<^verbatim>\<open>user?.id\<close> is \<^verbatim>\<open>undefined\<close> when nobody is signed in.
\<close>

record 'w backend =
  select_eq_order :: "uuid option \<Rightarrow> 'w \<Rightarrow> todo list option reply \<times> 'w"
  insert_select_single :: "todo_values \<Rightarrow> 'w \<Rightarrow> todo reply \<times> 'w"
  update_eq_eq :: "todo_values \<Rightarrow> uuid \<Rightarrow> uuid option \<Rightarrow> 'w \<Rightarrow> unit reply \<times> 'w"
  delete_eq_eq :: "uuid \<Rightarrow> uuid option \<Rightarrow> 'w \<Rightarrow> unit reply \<times> 'w"

text \<open>
  The store of the migration behind these queries. A filter on \<^verbatim>\<open>undefined\<close> is sent as
  the text \<^verbatim>\<open>eq.undefined\<close>, which is not a UUID. An UPDATE or DELETE that matches no
  row is not an error of the database, so the reply carries \<^verbatim>\<open>error: null\<close>.
\<close>

definition supabase :: "session \<Rightarrow> db backend" where
  "supabase s =
     \<lparr> select_eq_order = (\<lambda>u d.
         case u of
           None \<Rightarrow> (Failure Invalid_text_representation, d)
         | Some uid \<Rightarrow>
             (Success (Some (sort_key (\<lambda>r. - created_at r)
                               (pg_select s (\<lambda>r. user_id r = uid) d))), d)),
       insert_select_single = (\<lambda>v d.
         case pg_insert s v d of
           Inl e \<Rightarrow> (Failure e, d)
         | Inr (r, d') \<Rightarrow> (Success r, d')),
       update_eq_eq = (\<lambda>v i u d.
         case u of
           None \<Rightarrow> (Failure Invalid_text_representation, d)
         | Some uid \<Rightarrow>
             (case pg_update s (\<lambda>r. todo_id r = i \<and> user_id r = uid) v d of
                Inl e \<Rightarrow> (Failure e, d)
              | Inr (upd, d') \<Rightarrow> (Success (), d'))),
       delete_eq_eq = (\<lambda>i u d.
         case u of
           None \<Rightarrow> (Failure Invalid_text_representation, d)
         | Some uid \<Rightarrow> (Success (), snd (pg_delete s (\<lambda>r. todo_id r = i \<and> user_id r = uid) d))) \<rparr>"

section \<open>The controller: \<^verbatim>\<open>src/pages/Todos.tsx\<close>\<close>

datatype variant = Default | Destructive

record toast =
  toast_title :: string
  toast_description :: string
  toast_variant :: variant

text \<open>
  The component's state (the four \<^verbatim>\<open>useState\<close> cells) and what it has shown: the toasts
  raised and the messages written with \<^verbatim>\<open>console.error\<close>.
\<close>

record ctrl =
  todos :: "todo list"
  newTodo :: jsstring
  loading :: bool
  adding :: bool
  toasts :: "toast list"
  console :: "string list"

definition initial :: ctrl where
  "initial = \<lparr> todos = [], newTodo = [], loading = True, adding = False, toasts = [], console = [] \<rparr>"

definition destructive :: "string \<Rightarrow> toast" where
  "destructive msg = \<lparr> toast_title = ''Error'', toast_description = msg, toast_variant = Destructive \<rparr>"

definition success :: "string \<Rightarrow> toast" where
  "success msg = \<lparr> toast_title = ''Success'', toast_description = msg, toast_variant = Default \<rparr>"

text \<open>
  \<^verbatim>\<open>String.prototype.trim\<close>: the white space and line terminator code units of
  ECMAScript are removed from both ends.
\<close>

definition isWhiteSpace :: "16 word \<Rightarrow> bool" where
  "isWhiteSpace c =
     (c \<in> set [0x0009, 0x000A, 0x000B, 0x000C, 0x000D, 0x0020, 0x00A0, 0x1680,
               0x2028, 0x2029, 0x202F, 0x205F, 0x3000, 0xFEFF]
      \<or> (0x2000 \<le> c \<and> c \<le> 0x200A))"

definition trim :: "jsstring \<Rightarrow> jsstring" where
  "trim str = rev (dropWhile isWhiteSpace (rev (dropWhile isWhiteSpace str)))"

text \<open>
  The object of lines 78-82, \<^verbatim>\<open>{ title: newTodo.trim(), user_id: user?.id, completed: false }\<close>
  (an \<^verbatim>\<open>undefined\<close> value is dropped from the JSON body), and the object of line 113,
  \<^verbatim>\<open>{ completed: !completed }\<close>.
\<close>

definition insert_body :: "uuid option \<Rightarrow> jsstring \<Rightarrow> todo_values" where
  "insert_body user str =
     \<lparr> v_id = Omitted,
       v_user_id = (case user of None \<Rightarrow> Omitted | Some uid \<Rightarrow> Val uid),
       v_title = Val (trim str),
       v_description = Omitted,
       v_completed = Val False,
       v_created_at = Omitted,
       v_updated_at = Omitted \<rparr>"

definition update_body :: "bool \<Rightarrow> todo_values" where
  "update_body cmpl =
     \<lparr> v_id = Omitted, v_user_id = Omitted, v_title = Omitted, v_description = Omitted,
       v_completed = Val (\<not> cmpl), v_created_at = Omitted, v_updated_at = Omitted \<rparr>"

text \<open>
  Each handler is an \<^verbatim>\<open>async\<close> function created by a render of the component: the values
  of \<^verbatim>\<open>todos\<close>, \<^verbatim>\<open>newTodo\<close> and \<^verbatim>\<open>user\<close> it reads, before and after its \<^verbatim>\<open>await\<close>, are
  those of the state \<open>c\<close> in which it was invoked. At the \<^verbatim>\<open>await\<close> it leaves behind the
  query it sent and the code that runs once the query's promise settles. That code runs
  on the state current at that time, which other handlers may have changed meanwhile, and
  each setter it calls replaces one cell of it.
\<close>

record ('w, 'd) awaiting =
  query :: "'w \<Rightarrow> 'd reply \<times> 'w"
  resume :: "'d reply \<Rightarrow> ctrl \<Rightarrow> ctrl"

text \<open>The store answers the query in state \<open>w\<close> and the reply reaches the component in state \<open>cur\<close>.\<close>

definition settle :: "('w, 'd) awaiting \<Rightarrow> ctrl \<Rightarrow> 'w \<Rightarrow> ctrl \<times> 'w" where
  "settle a cur w = (let (r, w') = query a w in (resume a r cur, w'))"

text \<open>Lines 35-58. The handler reads no cell of the state.\<close>

definition fetchTodos :: "'w backend \<Rightarrow> uuid option \<Rightarrow> ('w, todo list option) awaiting" where
  "fetchTodos b user =
     \<lparr> query = select_eq_order b user,
       resume = (\<lambda>r cur.
         (case r of
            Failure e \<Rightarrow>
              cur\<lparr>toasts := toasts cur @ [destructive ''Failed to fetch todos''],
                  console := console cur @ [''Error fetching todos:'']\<rparr>
          | Success data \<Rightarrow>
              cur\<lparr>todos := (case data of None \<Rightarrow> [] | Some rows \<Rightarrow> rows)\<rparr>
          | Thrown \<Rightarrow> cur\<lparr>console := console cur @ [''Error fetching todos:'']\<rparr>)
         \<lparr>loading := False\<rparr>) \<rparr>"

text \<open>
  Lines 74-106: the insert and what follows it. Line 95 writes the new row in front of the
  list of the render that submitted the form.
\<close>

definition addTodo_request :: "'w backend \<Rightarrow> uuid option \<Rightarrow> ctrl \<Rightarrow> ('w, todo) awaiting" where
  "addTodo_request b user c =
     \<lparr> query = insert_select_single b (insert_body user (newTodo c)),
       resume = (\<lambda>r cur.
         (case r of
            Failure e \<Rightarrow>
              cur\<lparr>toasts := toasts cur @ [destructive ''Failed to add todo''],
                  console := console cur @ [''Error adding todo:'']\<rparr>
          | Success data \<Rightarrow>
              cur\<lparr>todos := data # todos c, newTodo := [],
                  toasts := toasts cur @ [success ''Todo added successfully!'']\<rparr>
          | Thrown \<Rightarrow> cur\<lparr>console := console cur @ [''Error adding todo:'']\<rparr>)
         \<lparr>adding := False\<rparr>) \<rparr>"

text \<open>
  Lines 60-107: the state after the synchronous part and, unless the handler returned at
  line 69, the pending request.
\<close>

definition addTodo :: "'w backend \<Rightarrow> uuid option \<Rightarrow> ctrl \<Rightarrow> ctrl \<times> ('w, todo) awaiting option" where
  "addTodo b user c =
     (if trim (newTodo c) = [] then
        (c\<lparr>toasts := toasts c @ [destructive ''Please enter a todo title'']\<rparr>, None)
      else (c\<lparr>adding := True\<rparr>, Some (addTodo_request b user c)))"

text \<open>Lines 109-132. Lines 125-127 write the mapped list of the render that was clicked.\<close>

definition toggleTodo :: "'w backend \<Rightarrow> uuid option \<Rightarrow> uuid \<Rightarrow> bool \<Rightarrow> ctrl \<Rightarrow> ('w, unit) awaiting" where
  "toggleTodo b user i cmpl c =
     \<lparr> query = update_eq_eq b (update_body cmpl) i user,
       resume = (\<lambda>r cur.
         case r of
           Failure e \<Rightarrow>
             cur\<lparr>toasts := toasts cur @ [destructive ''Failed to update todo''],
                 console := console cur @ [''Error updating todo:'']\<rparr>
         | Success u \<Rightarrow>
             cur\<lparr>todos := map (\<lambda>t. if todo_id t = i then t\<lparr>completed := \<not> cmpl\<rparr> else t) (todos c)\<rparr>
         | Thrown \<Rightarrow> cur\<lparr>console := console cur @ [''Error updating todo:'']\<rparr>) \<rparr>"

text \<open>Lines 134-159. Line 150 writes the filtered list of the render that was clicked.\<close>

definition deleteTodo :: "'w backend \<Rightarrow> uuid option \<Rightarrow> uuid \<Rightarrow> ctrl \<Rightarrow> ('w, unit) awaiting" where
  "deleteTodo b user i c =
     \<lparr> query = delete_eq_eq b i user,
       resume = (\<lambda>r cur.
         case r of
           Failure e \<Rightarrow>
             cur\<lparr>toasts := toasts cur @ [destructive ''Failed to delete todo''],
                 console := console cur @ [''Error deleting todo:'']\<rparr>
         | Success u \<Rightarrow>
             cur\<lparr>todos := filter (\<lambda>t. todo_id t \<noteq> i) (todos c),
                 toasts := toasts cur @ [success ''Todo deleted successfully!'']\<rparr>
         | Thrown \<Rightarrow> cur\<lparr>console := console cur @ [''Error deleting todo:'']\<rparr>) \<rparr>"

text \<open>Line 236: the checkbox of an item calls \<^verbatim>\<open>toggleTodo(todo.id, todo.completed)\<close>.\<close>

definition onCheckedChange :: "'w backend \<Rightarrow> uuid option \<Rightarrow> todo \<Rightarrow> ctrl \<Rightarrow> ('w, unit) awaiting" where
  "onCheckedChange b user t c = toggleTodo b user (todo_id t) (completed t) c"

text \<open>
  A handler that runs from its invocation to the end with nothing in between: the reply
  reaches the state the synchronous part left.
\<close>

definition uninterrupted :: "ctrl \<times> ('w, 'd) awaiting option \<Rightarrow> 'w \<Rightarrow> ctrl \<times> 'w" where
  "uninterrupted h w = (case snd h of None \<Rightarrow> (fst h, w) | Some a \<Rightarrow> settle a (fst h) w)"

section \<open>Stating results about the store\<close>

text \<open>
  Two functions that are not part of the program: the row an UPDATE leaves behind when it
  succeeds on a row (the SET list applied, then the trigger), used to describe the result
  of \<open>pg_update_rows\<close> in closed form.
\<close>

definition set_col :: "'a \<Rightarrow> 'a col \<Rightarrow> 'a" where
  "set_col old c = (case c of Val x \<Rightarrow> x | _ \<Rightarrow> old)"

definition updated_row :: "session \<Rightarrow> todo_values \<Rightarrow> todo \<Rightarrow> todo" where
  "updated_row s v r =
     \<lparr> todo_id = set_col (todo_id r) (v_id v),
       title = set_col (title r) (v_title v),
       description = with_default (description r) (v_description v),
       completed = set_col (completed r) (v_completed v),
       created_at = set_col (created_at r) (v_created_at v),
       updated_at = now s,
       user_id = set_col (user_id r) (v_user_id v) \<rparr>"

section \<open>Example values\<close>

text \<open>
  Two users, a title, sessions, a few rows and tables, a controller that has finished
  loading, and two stores other than the database: one whose every request is rejected by
  the network and one that answers a SELECT with \<^verbatim>\<open>{ data: null, error: null }\<close>. Both
  count the requests they receive.
\<close>

definition alice :: uuid where "alice = ''alice''"

definition bob :: uuid where "bob = ''bob''"

definition milk :: jsstring where "milk = [0x6D, 0x69, 0x6C, 0x6B]"

definition sess :: "uuid option \<Rightarrow> timestamptz \<Rightarrow> uuid \<Rightarrow> session" where
  "sess u t g = \<lparr> auth_uid = u, now = t, gen_random_uuid = g \<rparr>"

definition row_a :: todo where
  "row_a = \<lparr> todo_id = ''t1'', title = milk, description = None, completed = False,
             created_at = 10, updated_at = 10, user_id = alice \<rparr>"

definition row_b :: todo where
  "row_b = \<lparr> todo_id = ''t2'', title = milk, description = None, completed = True,
             created_at = 11, updated_at = 12, user_id = bob \<rparr>"

definition row_c :: todo where
  "row_c = \<lparr> todo_id = ''t3'', title = milk, description = None, completed = False,
             created_at = 20, updated_at = 20, user_id = alice \<rparr>"

definition row_future :: todo where
  "row_future = \<lparr> todo_id = ''t3'', title = milk, description = None, completed = False,
             created_at = 1, updated_at = 100, user_id = alice \<rparr>"

definition row_blank :: todo where
  "row_blank = \<lparr> todo_id = ''t3'', title = [], description = None, completed = False,
             created_at = 20, updated_at = 20, user_id = alice \<rparr>"

definition db_empty :: db where
  "db_empty = \<lparr> auth_users = [alice, bob], public_todos = [] \<rparr>"

definition db_two :: db where
  "db_two = \<lparr> auth_users = [alice, bob], public_todos = [row_a, row_b] \<rparr>"

definition db_three :: db where
  "db_three = \<lparr> auth_users = [alice, bob], public_todos = [row_a, row_b, row_c] \<rparr>"

definition ready :: "todo list \<Rightarrow> jsstring \<Rightarrow> ctrl" where
  "ready ts str = \<lparr> todos = ts, newTodo = str, loading = False, adding = False, toasts = [], console = [] \<rparr>"

definition unreachable :: "nat backend" where
  "unreachable =
     \<lparr> select_eq_order = (\<lambda>u n. (Thrown, Suc n)),
       insert_select_single = (\<lambda>v n. (Thrown, Suc n)),
       update_eq_eq = (\<lambda>v i u n. (Thrown, Suc n)),
       delete_eq_eq = (\<lambda>i u n. (Thrown, Suc n)) \<rparr>"

definition null_data :: "nat backend" where
  "null_data = unreachable\<lparr>select_eq_order := (\<lambda>u n. (Success None, Suc n))\<rparr>"

lemmas ex_defs = alice_def bob_def milk_def sess_def row_a_def row_b_def row_c_def row_future_def
  row_blank_def db_empty_def db_two_def db_three_def ready_def unreachable_def null_data_def

lemmas pg_defs = pg_select_def pg_insert_def pg_update_def pg_delete_def policy_def new_tuple_def
  assign_def not_null_def handle_updated_at_def with_default_def supabase_def insert_body_def
  update_body_def trim_def isWhiteSpace_def

lemmas ctl_defs = initial_def fetchTodos_def addTodo_def addTodo_request_def toggleTodo_def
  deleteTodo_def onCheckedChange_def settle_def uninterrupted_def destructive_def success_def

section \<open>The shape of a successful UPDATE\<close>

lemma with_default_Some: "with_default (Some a) c = Some x \<Longrightarrow> x = set_col a c"
  by (cases c) (simp_all add: with_default_def set_col_def)

lemma not_null_assign:
  assumes "not_null (handle_updated_at s (assign r v)) = Some r'"
  shows "r' = updated_row s v r"
  using assms
  by (auto simp: not_null_def handle_updated_at_def assign_def updated_row_def
        split: option.splits dest!: with_default_Some)

lemma policy_Some: "policy s (Some u) \<longleftrightarrow> auth_uid s = Some u"
  by (auto simp: policy_def split: option.splits)

text \<open>
  A successful UPDATE keeps the table's length and order: every target row is replaced by
  its updated row, whose owner still passes the policy, and every other row stays.
\<close>

lemma pg_update_rows_shape:
  "pg_update_rows s wh v seen rest = Inr (tbl, upd) \<Longrightarrow>
     tbl = seen @ map (\<lambda>r. if policy s (Some (user_id r)) \<and> wh r then updated_row s v r else r) rest \<and>
     upd = map (updated_row s v) (filter (\<lambda>r. policy s (Some (user_id r)) \<and> wh r) rest) \<and>
     (\<forall>r \<in> set rest. policy s (Some (user_id r)) \<and> wh r \<longrightarrow> policy s (Some (user_id (updated_row s v r))))"
proof (induction rest arbitrary: seen tbl upd)
  case Nil
  then show ?case by simp
next
  case (Cons r rest)
  show ?case
  proof (cases "policy s (Some (user_id r)) \<and> wh r")
    case False
    with Cons.prems have "pg_update_rows s wh v (seen @ [r]) rest = Inr (tbl, upd)" by auto
    from Cons.IH [OF this] False show ?thesis by auto
  next
    case True
    let ?new = "handle_updated_at s (assign r v)"
    from Cons.prems True have pol: "policy s (t_user_id ?new)"
      by (auto simp: Let_def split: if_splits)
    from Cons.prems True pol obtain r' where nn: "not_null ?new = Some r'"
      by (auto simp: Let_def split: if_splits option.splits)
    have r': "r' = updated_row s v r" using nn by (rule not_null_assign)
    from Cons.prems True pol nn obtain tbl0 upd0 where
      rec: "pg_update_rows s wh v (seen @ [r']) rest = Inr (tbl0, upd0)" and
      res: "tbl = tbl0" "upd = r' # upd0"
      by (auto simp: Let_def split: if_splits sum.splits)
    have "t_user_id ?new = Some (user_id r')"
      using nn by (auto simp: not_null_def split: option.splits)
    with pol have "policy s (Some (user_id r'))" by simp
    with Cons.IH [OF rec] True res r' show ?thesis by simp
  qed
qed

lemma pg_update_rows_no_target:
  "\<forall>r \<in> set rest. \<not> (policy s (Some (user_id r)) \<and> wh r) \<Longrightarrow>
     pg_update_rows s wh v seen rest = Inr (seen @ rest, [])"
  by (induction rest arbitrary: seen) auto

text \<open>An UPDATE whose new rows all fail the policy is refused at its first target row.\<close>

lemma pg_update_rows_owner_denied:
  assumes "\<forall>r. \<not> policy s (t_user_id (handle_updated_at s (assign r v)))"
    and "\<exists>r \<in> set rest. policy s (Some (user_id r)) \<and> wh r"
  shows "pg_update_rows s wh v seen rest = Inl Insufficient_privilege"
  using assms(2)
proof (induction rest arbitrary: seen)
  case Nil
  then show ?case by simp
next
  case (Cons r rest)
  show ?case
  proof (cases "policy s (Some (user_id r)) \<and> wh r")
    case True
    with assms(1) show ?thesis by (simp add: Let_def)
  next
    case False
    with Cons.prems have "\<exists>r \<in> set rest. policy s (Some (user_id r)) \<and> wh r" by auto
    from Cons.IH [OF this] False show ?thesis by auto
  qed
qed

lemma filter_map_frame:
  assumes "\<And>x. x \<in> set xs \<Longrightarrow> P x \<Longrightarrow> f x = x" and "\<And>x. x \<in> set xs \<Longrightarrow> \<not> P x \<Longrightarrow> \<not> P (f x)"
  shows "filter P (map f xs) = filter P xs"
  using assms by (induction xs) auto




section \<open>Per-user isolation\<close>

text \<open>
  Bob's UPDATE and DELETE aimed at the id of Alice's row are not refused: the statements
  succeed on no row, the client is answered without an error, and the delete handler
  announces success. The table is left as it was.
\<close>

theorem foreign_row_write_not_refused:
  "pg_update (sess (Some bob) 21 ''t4'') (\<lambda>r. todo_id r = ''t1'') (update_body False) db_two = Inr ([], db_two)
   \<and> pg_delete (sess (Some bob) 21 ''t4'') (\<lambda>r. todo_id r = ''t1'') db_two = ([], db_two)
   \<and> update_eq_eq (supabase (sess (Some bob) 21 ''t4'')) (update_body False) ''t1'' (Some alice) db_two
       = (Success (), db_two)
   \<and> delete_eq_eq (supabase (sess (Some bob) 21 ''t4'')) ''t1'' (Some alice) db_two = (Success (), db_two)
   \<and> settle (deleteTodo (supabase (sess (Some bob) 21 ''t4'')) (Some bob) ''t1'' (ready [row_a] []))
        (ready [row_a] []) db_two
       = ((ready [] [])\<lparr>toasts := [success ''Todo deleted successfully!'']\<rparr>, db_two)"
  by (simp add: ex_defs ctl_defs pg_defs)

text \<open>
  C1, as the store has it. For users \<open>A \<noteq> B\<close>, with \<open>sA\<close> and \<open>sB\<close> any statements run as
  \<open>A\<close> and as \<open>B\<close>, and for every WHERE clause and every column list:
  a row \<open>A\<close> creates is owned by \<open>A\<close>; a SELECT run as \<open>B\<close> returns only rows owned by
  \<open>B\<close>, so never a row of \<open>A\<close>; an INSERT run as \<open>B\<close> whose owner column is not \<open>B\<close> is
  refused with an error, and one that succeeds appends a row owned by \<open>B\<close> and changes
  nothing else; an UPDATE run as \<open>B\<close> that would give a row to another owner (or to none)
  is refused with an error as soon as it has a target; a successful UPDATE run as \<open>B\<close>
  leaves the rows of everybody else exactly as they were and touches only rows of \<open>B\<close>; a
  DELETE run as \<open>B\<close> removes only rows of \<open>B\<close>. An UPDATE or DELETE run as \<open>B\<close> whose WHERE
  selects only rows of others is scoped silently: it succeeds on no row and the table is
  unchanged. A refused statement returns no new table, so the table stays as it was.
\<close>

theorem per_user_isolation:
  assumes "A \<noteq> B" and "auth_uid sA = Some A" and "auth_uid sB = Some B"
  shows
   "(pg_insert sA vA d0 = Inr (rA, d1) \<longrightarrow> user_id rA = A) \<and>
    (\<forall>r \<in> set (pg_select sB wh d). user_id r = B \<and> user_id r \<noteq> A) \<and>
    (with_default None (v_user_id v) \<noteq> Some B \<longrightarrow> pg_insert sB v d = Inl Insufficient_privilege) \<and>
    (pg_insert sB v d = Inr (rB, dB) \<longrightarrow> user_id rB = B \<and> public_todos dB = public_todos d @ [rB]) \<and>
    (pg_update sB wh p d = Inr (upd, d') \<longrightarrow>
       filter (\<lambda>r. user_id r \<noteq> B) (public_todos d') = filter (\<lambda>r. user_id r \<noteq> B) (public_todos d) \<and>
       (\<forall>r \<in> set upd. user_id r = B)) \<and>
    ((v_user_id p = Null \<or> (\<exists>X. v_user_id p = Val X \<and> X \<noteq> B)) \<and> pg_select sB wh d \<noteq> [] \<longrightarrow>
       pg_update sB wh p d = Inl Insufficient_privilege) \<and>
    filter (\<lambda>r. user_id r \<noteq> B) (public_todos (snd (pg_delete sB wh d)))
       = filter (\<lambda>r. user_id r \<noteq> B) (public_todos d) \<and>
    (\<forall>r \<in> set (fst (pg_delete sB wh d)). user_id r = B) \<and>
    ((\<forall>r \<in> set (public_todos d). wh r \<longrightarrow> user_id r \<noteq> B) \<longrightarrow>
       pg_update sB wh p d = Inr ([], d) \<and> pg_delete sB wh d = ([], d))"
proof -
  have polB: "policy sB (Some u) \<longleftrightarrow> u = B" for u
    using assms(3) by (auto simp: policy_Some)
  have ins_own: "user_id r = u \<and> public_todos e' = public_todos e @ [r]"
    if "auth_uid s = Some u" and "pg_insert s x e = Inr (r, e')" for s u x e r e'
  proof -
    from that(2) have "policy s (t_user_id (new_tuple s x))" and "not_null (new_tuple s x) = Some r"
      and "e' = e\<lparr>public_todos := public_todos e @ [r]\<rparr>"
      by (auto simp: pg_insert_def Let_def split: if_splits option.splits)
    moreover from this have "policy s (Some (user_id r))"
      by (auto simp: not_null_def split: option.splits)
    ultimately show ?thesis using that(1) by (simp add: policy_Some)
  qed
  have ins_A: "user_id rA = A" if "pg_insert sA vA d0 = Inr (rA, d1)"
    using ins_own [OF assms(2) that] by simp
  have ins_B': "user_id rB = B \<and> public_todos dB = public_todos d @ [rB]"
    if "pg_insert sB v d = Inr (rB, dB)"
    using ins_own [OF assms(3) that] .
  have sel: "\<forall>r \<in> set (pg_select sB wh d). user_id r = B \<and> user_id r \<noteq> A"
    using assms(1) by (auto simp: pg_select_def polB)
  have ins_B: "pg_insert sB v d = Inl Insufficient_privilege" if "with_default None (v_user_id v) \<noteq> Some B"
  proof -
    from that have "\<not> policy sB (t_user_id (new_tuple sB v))"
      using assms(3) by (auto simp: policy_def new_tuple_def split: option.splits)
    then show ?thesis by (simp add: pg_insert_def Let_def)
  qed
  have upd: "filter (\<lambda>r. user_id r \<noteq> B) (public_todos d') = filter (\<lambda>r. user_id r \<noteq> B) (public_todos d)
      \<and> (\<forall>r \<in> set upd. user_id r = B)" if "pg_update sB wh p d = Inr (upd, d')"
  proof -
    from that obtain tbl where rows: "pg_update_rows sB wh p [] (public_todos d) = Inr (tbl, upd)"
      and d': "d' = d\<lparr>public_todos := tbl\<rparr>"
      by (auto simp: pg_update_def split: sum.splits)
    note shape = pg_update_rows_shape [OF rows]
    let ?f = "\<lambda>r. if policy sB (Some (user_id r)) \<and> wh r then updated_row sB p r else r"
    from shape have tbl: "tbl = map ?f (public_todos d)" by simp
    from shape have own: "\<forall>r \<in> set (public_todos d). policy sB (Some (user_id r)) \<and> wh r
        \<longrightarrow> user_id (updated_row sB p r) = B"
      by (simp add: polB)
    have "filter (\<lambda>r. user_id r \<noteq> B) (map ?f (public_todos d)) = filter (\<lambda>r. user_id r \<noteq> B) (public_todos d)"
      by (rule filter_map_frame) (use own in \<open>auto simp: polB\<close>)
    moreover from shape own have "\<forall>r \<in> set upd. user_id r = B" by auto
    ultimately show ?thesis by (simp add: d' tbl)
  qed
  have chown: "pg_update sB wh p d = Inl Insufficient_privilege"
    if "(v_user_id p = Null \<or> (\<exists>X. v_user_id p = Val X \<and> X \<noteq> B)) \<and> pg_select sB wh d \<noteq> []"
  proof -
    from that have "\<forall>r. \<not> policy sB (t_user_id (handle_updated_at sB (assign r p)))"
      using assms(3) by (auto simp: policy_def handle_updated_at_def assign_def with_default_def)
    moreover from that have "\<exists>r \<in> set (public_todos d). policy sB (Some (user_id r)) \<and> wh r"
      by (auto simp: pg_select_def filter_empty_conv)
    ultimately have "pg_update_rows sB wh p [] (public_todos d) = Inl Insufficient_privilege"
      by (rule pg_update_rows_owner_denied)
    then show ?thesis by (simp add: pg_update_def)
  qed
  have del: "filter (\<lambda>r. user_id r \<noteq> B) (public_todos (snd (pg_delete sB wh d)))
       = filter (\<lambda>r. user_id r \<noteq> B) (public_todos d)"
    by (auto simp: pg_delete_def polB intro: filter_cong)
  have del': "\<forall>r \<in> set (fst (pg_delete sB wh d)). user_id r = B"
    by (auto simp: pg_delete_def polB)
  have scoped: "pg_update sB wh p d = Inr ([], d) \<and> pg_delete sB wh d = ([], d)"
    if "\<forall>r \<in> set (public_todos d). wh r \<longrightarrow> user_id r \<noteq> B"
  proof -
    from that have none: "\<forall>r \<in> set (public_todos d). \<not> (policy sB (Some (user_id r)) \<and> wh r)"
      by (auto simp: polB)
    then have "pg_update_rows sB wh p [] (public_todos d) = Inr ([] @ public_todos d, [])"
      by (rule pg_update_rows_no_target)
    then have u: "pg_update sB wh p d = Inr ([], d)" by (simp add: pg_update_def)
    from none have "filter (\<lambda>r. \<not> (policy sB (Some (user_id r)) \<and> wh r)) (public_todos d) = public_todos d"
      and "filter (\<lambda>r. policy sB (Some (user_id r)) \<and> wh r) (public_todos d) = []"
      by (simp_all add: filter_id_conv filter_empty_conv)
    then have "pg_delete sB wh d = ([], d)" by (simp add: pg_delete_def)
    with u show ?thesis by simp
  qed
  from ins_A sel ins_B ins_B' upd chown del del' scoped show ?thesis by blast
qed

theorem per_user_isolation_witness:
  "alice \<noteq> bob \<and> auth_uid (sess (Some alice) 20 ''t3'') = Some alice
   \<and> auth_uid (sess (Some bob) 21 ''t4'') = Some bob
   \<and> pg_insert (sess (Some alice) 20 ''t3'') (insert_body (Some alice) milk) db_two
       = Inr (row_c, db_two\<lparr>public_todos := [row_a, row_b, row_c]\<rparr>)
   \<and> user_id row_c = alice
   \<and> pg_select (sess (Some bob) 21 ''t4'') (\<lambda>r. True) db_two = [row_b]
   \<and> pg_insert (sess (Some bob) 21 ''t4'') (insert_body (Some alice) milk) db_two = Inl Insufficient_privilege
   \<and> pg_insert (sess (Some bob) 21 ''t4'') (insert_body (Some bob) milk) db_two
       = Inr (row_b\<lparr>todo_id := ''t4'', completed := False, created_at := 21, updated_at := 21\<rparr>,
              db_two\<lparr>public_todos := [row_a, row_b,
                 row_b\<lparr>todo_id := ''t4'', completed := False, created_at := 21, updated_at := 21\<rparr>]\<rparr>)
   \<and> pg_update (sess (Some bob) 21 ''t4'') (\<lambda>r. todo_id r = ''t1'') (update_body False) db_two = Inr ([], db_two)
   \<and> pg_update (sess (Some bob) 21 ''t4'') (\<lambda>r. True) (update_body True) db_two
       = Inr ([row_b\<lparr>completed := False, updated_at := 21\<rparr>],
              db_two\<lparr>public_todos := [row_a, row_b\<lparr>completed := False, updated_at := 21\<rparr>]\<rparr>)
   \<and> pg_update (sess (Some bob) 21 ''t4'') (\<lambda>r. True) ((update_body True)\<lparr>v_user_id := Val alice\<rparr>) db_two
       = Inl Insufficient_privilege
   \<and> pg_delete (sess (Some bob) 21 ''t4'') (\<lambda>r. todo_id r = ''t1'') db_two = ([], db_two)
   \<and> pg_delete (sess (Some bob) 21 ''t4'') (\<lambda>r. True) db_two = ([row_b], db_two\<lparr>public_todos := [row_a]\<rparr>)"
proof -
  let ?sA = "sess (Some alice) 20 ''t3''" and ?sB = "sess (Some bob) 21 ''t4''"
  have h1: "alice \<noteq> bob" by (simp add: ex_defs)
  have h2: "auth_uid ?sA = Some alice" by (simp add: ex_defs)
  have h3: "auth_uid ?sB = Some bob" by (simp add: ex_defs)
  have insA: "pg_insert ?sA (insert_body (Some alice) milk) db_two
       = Inr (row_c, db_two\<lparr>public_todos := [row_a, row_b, row_c]\<rparr>)"
    by (simp add: ex_defs pg_defs)
  have sel: "pg_select ?sB (\<lambda>r. True) db_two = [row_b]"
    by (simp add: ex_defs pg_defs)
  have insB: "pg_insert ?sB (insert_body (Some bob) milk) db_two
       = Inr (row_b\<lparr>todo_id := ''t4'', completed := False, created_at := 21, updated_at := 21\<rparr>,
              db_two\<lparr>public_todos := [row_a, row_b,
                 row_b\<lparr>todo_id := ''t4'', completed := False, created_at := 21, updated_at := 21\<rparr>]\<rparr>)"
    by (simp add: ex_defs pg_defs)
  have upd0: "pg_update ?sB (\<lambda>r. todo_id r = ''t1'') (update_body False) db_two = Inr ([], db_two)"
    by (simp add: ex_defs pg_defs)
  have upd1: "pg_update ?sB (\<lambda>r. True) (update_body True) db_two
       = Inr ([row_b\<lparr>completed := False, updated_at := 21\<rparr>],
              db_two\<lparr>public_todos := [row_a, row_b\<lparr>completed := False, updated_at := 21\<rparr>]\<rparr>)"
    by (simp add: ex_defs pg_defs)
  have del0: "pg_delete ?sB (\<lambda>r. todo_id r = ''t1'') db_two = ([], db_two)"
    by (simp add: ex_defs pg_defs)
  have del1: "pg_delete ?sB (\<lambda>r. True) db_two = ([row_b], db_two\<lparr>public_todos := [row_a]\<rparr>)"
    by (simp add: ex_defs pg_defs)
  have other: "with_default None (v_user_id (insert_body (Some alice) milk)) \<noteq> Some bob"
    by (simp add: ex_defs pg_defs)
  have chg: "v_user_id ((update_body True)\<lparr>v_user_id := Val alice\<rparr>) = Val alice" by simp
  note iso = per_user_isolation [OF h1 h2 h3, where vA = "insert_body (Some alice) milk" and ?d0.0 = db_two
      and rA = row_c and ?d1.0 = "db_two\<lparr>public_todos := [row_a, row_b, row_c]\<rparr>"
      and wh = "\<lambda>r. True" and d = db_two and v = "insert_body (Some alice) milk"
      and p = "(update_body True)\<lparr>v_user_id := Val alice\<rparr>"]
  from iso insA have own: "user_id row_c = alice" by blast
  from iso other have refused: "pg_insert ?sB (insert_body (Some alice) milk) db_two = Inl Insufficient_privilege"
    by blast
  from sel have "pg_select ?sB (\<lambda>r. True) db_two \<noteq> []" by simp
  with iso chg h1 have chown: "pg_update ?sB (\<lambda>r. True) ((update_body True)\<lparr>v_user_id := Val alice\<rparr>) db_two
       = Inl Insufficient_privilege"
    by blast
  have foreign: "\<forall>r \<in> set (public_todos db_two). todo_id r = ''t1'' \<longrightarrow> user_id r \<noteq> bob"
    by (simp add: ex_defs)
  note iso' = per_user_isolation [OF h1 h2 h3, where wh = "\<lambda>r. todo_id r = ''t1''" and d = db_two
      and p = "update_body False"]
  from iso' foreign have scoped:
    "pg_update ?sB (\<lambda>r. todo_id r = ''t1'') (update_body False) db_two = Inr ([], db_two)"
    "pg_delete ?sB (\<lambda>r. todo_id r = ''t1'') db_two = ([], db_two)"
    by blast+
  from h1 h2 h3 insA own sel refused insB scoped upd1 chown del1 show ?thesis by blast
qed

section \<open>Titles at the storage layer\<close>

text \<open>
  The table constrains \<^verbatim>\<open>title\<close> with NOT NULL only. The body the controller would send
  for an empty title, were its own check absent, is accepted: the row is inserted with the
  empty title.
\<close>

theorem empty_title_accepted_by_store:
  "pg_insert (sess (Some alice) 20 ''t3'') (insert_body (Some alice) []) db_two
     = Inr (row_blank, db_two\<lparr>public_todos := [row_a, row_b, row_blank]\<rparr>)"
  by (simp add: ex_defs pg_defs)

text \<open>
  C2, as the store has it. An INSERT whose title is absent or NULL fails (with the policy's
  refusal when the owner is not the caller, with the NOT NULL violation otherwise), the
  client gets an error and the table is unchanged. The empty string is a title like any
  other: whenever an INSERT with some title succeeds, the same INSERT with the empty title
  succeeds and stores the same row with the empty title.
\<close>

theorem insert_title_constraint:
  "(v_title v = Omitted \<or> v_title v = Null \<longrightarrow>
      (pg_insert s v d = Inl Insufficient_privilege \<or> pg_insert s v d = Inl Not_null_violation) \<and>
      (\<exists>e. insert_select_single (supabase s) v d = (Failure e, d))) \<and>
   (pg_insert s (v\<lparr>v_title := Val ti\<rparr>) d = Inr (r, d') \<longrightarrow>
      pg_insert s (v\<lparr>v_title := Val []\<rparr>) d
        = Inr (r\<lparr>title := []\<rparr>, d\<lparr>public_todos := public_todos d @ [r\<lparr>title := []\<rparr>]\<rparr>))"
proof -
  have absent: "pg_insert s v d = Inl Insufficient_privilege \<or> pg_insert s v d = Inl Not_null_violation"
    if "v_title v = Omitted \<or> v_title v = Null"
  proof -
    from that have "t_title (new_tuple s v) = None"
      by (auto simp: new_tuple_def with_default_def)
    then have "not_null (new_tuple s v) = None"
      by (simp add: not_null_def split: option.splits)
    then show ?thesis by (simp add: pg_insert_def Let_def)
  qed
  have reply: "\<exists>e. insert_select_single (supabase s) v d = (Failure e, d)"
    if "v_title v = Omitted \<or> v_title v = Null"
    using absent [OF that] by (auto simp: supabase_def)
  have blank: "pg_insert s (v\<lparr>v_title := Val []\<rparr>) d
        = Inr (r\<lparr>title := []\<rparr>, d\<lparr>public_todos := public_todos d @ [r\<lparr>title := []\<rparr>]\<rparr>)"
    if "pg_insert s (v\<lparr>v_title := Val ti\<rparr>) d = Inr (r, d')"
    using that
    by (auto simp: pg_insert_def Let_def new_tuple_def not_null_def with_default_def
          split: if_splits option.splits)
  from absent reply blank show ?thesis by blast
qed

theorem insert_title_constraint_witness:
  "v_title ((insert_body (Some alice) milk)\<lparr>v_title := Null\<rparr>) = Null
   \<and> pg_insert (sess (Some alice) 20 ''t3'') ((insert_body (Some alice) milk)\<lparr>v_title := Null\<rparr>) db_two
       = Inl Not_null_violation
   \<and> insert_select_single (supabase (sess (Some alice) 20 ''t3''))
        ((insert_body (Some alice) milk)\<lparr>v_title := Null\<rparr>) db_two = (Failure Not_null_violation, db_two)
   \<and> pg_insert (sess (Some alice) 20 ''t3'') ((insert_body (Some alice) milk)\<lparr>v_title := Val milk\<rparr>) db_two
       = Inr (row_c, db_two\<lparr>public_todos := [row_a, row_b, row_c]\<rparr>)
   \<and> pg_insert (sess (Some alice) 20 ''t3'') ((insert_body (Some alice) milk)\<lparr>v_title := Val []\<rparr>) db_two
       = Inr (row_c\<lparr>title := []\<rparr>, db_two\<lparr>public_todos := [row_a, row_b, row_c\<lparr>title := []\<rparr>]\<rparr>)"
  using insert_title_constraint [where v = "(insert_body (Some alice) milk)\<lparr>v_title := Null\<rparr>"
      and s = "sess (Some alice) 20 ''t3''" and d = db_two and ti = milk and r = row_c
      and d' = "db_two\<lparr>public_todos := [row_a, row_b, row_c]\<rparr>"]
  by (simp add: ex_defs pg_defs)

section \<open>The local list after a failed request\<close>

text \<open>
  C3. For each of the four handlers and every store: the synchronous part of a handler
  does not touch the list, and when the request resolves to an error (or the promise is
  rejected), the local list after the handler's code has run is the list as it was when
  the reply arrived, whatever happened while the request was in flight. In particular a
  handler that runs uninterrupted leaves the list it started with.
\<close>

theorem local_list_unchanged_on_error:
  "(fst (select_eq_order b user w) = Failure e \<or> fst (select_eq_order b user w) = Thrown
      \<longrightarrow> todos (fst (settle (fetchTodos b user) cur w)) = todos cur) \<and>
   todos (fst (addTodo b user c)) = todos c \<and>
   (fst (insert_select_single b (insert_body user (newTodo c)) w) = Failure e
      \<or> fst (insert_select_single b (insert_body user (newTodo c)) w) = Thrown
      \<longrightarrow> todos (fst (settle (addTodo_request b user c) cur w)) = todos cur
        \<and> todos (fst (uninterrupted (addTodo b user c) w)) = todos c) \<and>
   (fst (update_eq_eq b (update_body cmpl) i user w) = Failure e
      \<or> fst (update_eq_eq b (update_body cmpl) i user w) = Thrown
      \<longrightarrow> todos (fst (settle (toggleTodo b user i cmpl c) cur w)) = todos cur) \<and>
   (fst (delete_eq_eq b i user w) = Failure e \<or> fst (delete_eq_eq b i user w) = Thrown
      \<longrightarrow> todos (fst (settle (deleteTodo b user i c) cur w)) = todos cur)"
  by (auto simp: fetchTodos_def addTodo_def addTodo_request_def toggleTodo_def deleteTodo_def
        settle_def uninterrupted_def Let_def case_prod_beta)

theorem local_list_unchanged_on_error_witness:
  "fst (select_eq_order (supabase (sess None 30 ''t8'')) None db_three) = Failure Invalid_text_representation
   \<and> todos (fst (settle (fetchTodos (supabase (sess None 30 ''t8'')) None) (ready [row_a] milk) db_three)) = [row_a]
   \<and> fst (insert_select_single (supabase (sess None 30 ''t8'')) (insert_body None milk) db_three)
       = Failure Insufficient_privilege
   \<and> todos (fst (uninterrupted (addTodo (supabase (sess None 30 ''t8'')) None (ready [row_a] milk)) db_three)) = [row_a]
   \<and> todos (fst (settle (addTodo_request (supabase (sess None 30 ''t8'')) None (ready [row_c] milk))
              (ready [row_a] milk) db_three)) = [row_a]
   \<and> fst (update_eq_eq (supabase (sess None 30 ''t8'')) (update_body False) ''t1'' None db_three)
       = Failure Invalid_text_representation
   \<and> todos (fst (settle (toggleTodo (supabase (sess None 30 ''t8'')) None ''t1'' False (ready [row_c] milk))
              (ready [row_a] milk) db_three)) = [row_a]
   \<and> fst (delete_eq_eq (supabase (sess None 30 ''t8'')) ''t1'' None db_three) = Failure Invalid_text_representation
   \<and> todos (fst (settle (deleteTodo (supabase (sess None 30 ''t8'')) None ''t1'' (ready [row_c] milk))
              (ready [row_a] milk) db_three)) = [row_a]
   \<and> fst (delete_eq_eq unreachable ''t1'' (Some alice) 0) = Thrown
   \<and> todos (fst (settle (deleteTodo unreachable (Some alice) ''t1'' (ready [row_c] milk)) (ready [row_a] milk) 0))
       = [row_a]"
proof -
  let ?b = "supabase (sess None 30 ''t8'')"
  have f1: "fst (select_eq_order ?b None db_three) = Failure Invalid_text_representation"
    by (simp add: ex_defs pg_defs)
  have f2: "fst (insert_select_single ?b (insert_body None (newTodo (ready [row_a] milk))) db_three)
       = Failure Insufficient_privilege"
    by (simp add: ex_defs pg_defs)
  have f2': "fst (insert_select_single ?b (insert_body None (newTodo (ready [row_c] milk))) db_three)
       = Failure Insufficient_privilege"
    by (simp add: ex_defs pg_defs)
  have f3: "fst (update_eq_eq ?b (update_body False) ''t1'' None db_three) = Failure Invalid_text_representation"
    by (simp add: ex_defs pg_defs)
  have f4: "fst (delete_eq_eq ?b ''t1'' None db_three) = Failure Invalid_text_representation"
    by (simp add: ex_defs pg_defs)
  have f5: "fst (delete_eq_eq unreachable ''t1'' (Some alice) 0) = Thrown"
    by (simp add: ex_defs)
  have l: "todos (ready [row_a] milk) = [row_a]" by (simp add: ready_def)
  have n: "newTodo (ready [row_a] milk) = milk" "newTodo (ready [row_c] milk) = milk" by (simp_all add: ready_def)
  note A = local_list_unchanged_on_error [where b = ?b and user = None and w = db_three
      and e = Invalid_text_representation and cur = "ready [row_a] milk" and c = "ready [row_c] milk"
      and cmpl = False and i = "''t1''"]
  note B = local_list_unchanged_on_error [where b = ?b and user = None and w = db_three
      and e = Insufficient_privilege and cur = "ready [row_a] milk" and c = "ready [row_c] milk"
      and cmpl = False and i = "''t1''"]
  note C = local_list_unchanged_on_error [where b = ?b and user = None and w = db_three
      and e = Insufficient_privilege and cur = "ready [row_a] milk" and c = "ready [row_a] milk"
      and cmpl = False and i = "''t1''"]
  note D = local_list_unchanged_on_error [where b = unreachable and user = "Some alice" and w = 0
      and e = Fetch_failed and cur = "ready [row_a] milk" and c = "ready [row_c] milk"
      and cmpl = False and i = "''t1''"]
  from A f1 l have g1: "todos (fst (settle (fetchTodos ?b None) (ready [row_a] milk) db_three)) = [row_a]"
    by simp
  from C f2 l have g2: "todos (fst (uninterrupted (addTodo ?b None (ready [row_a] milk)) db_three)) = [row_a]"
    by simp
  from B f2' l have g2': "todos (fst (settle (addTodo_request ?b None (ready [row_c] milk))
              (ready [row_a] milk) db_three)) = [row_a]"
    by simp
  from A f3 l have g3: "todos (fst (settle (toggleTodo ?b None ''t1'' False (ready [row_c] milk))
              (ready [row_a] milk) db_three)) = [row_a]"
    by simp
  from A f4 l have g4: "todos (fst (settle (deleteTodo ?b None ''t1'' (ready [row_c] milk))
              (ready [row_a] milk) db_three)) = [row_a]"
    by simp
  from D f5 l have g5: "todos (fst (settle (deleteTodo unreachable (Some alice) ''t1'' (ready [row_c] milk))
              (ready [row_a] milk) 0)) = [row_a]"
    by simp
  from f1 g1 f2 g2 g2' f3 g3 f4 g4 f5 g5 n show ?thesis by simp
qed

section \<open>A row that the server no longer has\<close>

text \<open>
  The local list holds a row the table does not have. The toggle flips the local copy and
  the delete removes it and announces success; no error toast is raised in either case.
\<close>

theorem stale_toggle_counterexample:
  "settle (toggleTodo (supabase (sess (Some alice) 30 ''t9'')) (Some alice) ''t1'' False (ready [row_a] []))
      (ready [row_a] []) db_empty
     = (ready [row_a\<lparr>completed := True\<rparr>] [], db_empty)
   \<and> settle (deleteTodo (supabase (sess (Some alice) 30 ''t9'')) (Some alice) ''t1'' (ready [row_a] []))
      (ready [row_a] []) db_empty
     = ((ready [] [])\<lparr>toasts := [success ''Todo deleted successfully!'']\<rparr>, db_empty)"
  by (simp add: ex_defs ctl_defs pg_defs)

text \<open>
  C4, as the code has it. When no row of the table has the target id, the UPDATE and the
  DELETE match nothing, leave the table as it is and are answered without an error, and
  the controller proceeds as for a success: the toggle writes the list of the render that
  was clicked with the flag of the items with that id flipped, the delete writes that
  list without them and raises the success toast. No error is reported and the list is
  not fetched again.
\<close>

theorem stale_row_is_treated_as_success:
  assumes "\<forall>r \<in> set (public_todos d). todo_id r \<noteq> i"
  shows "settle (toggleTodo (supabase s) (Some uid) i cmpl c) cur d
           = (cur\<lparr>todos := map (\<lambda>t. if todo_id t = i then t\<lparr>completed := \<not> cmpl\<rparr> else t) (todos c)\<rparr>, d)
       \<and> settle (deleteTodo (supabase s) (Some uid) i c) cur d
           = (cur\<lparr>todos := filter (\<lambda>t. todo_id t \<noteq> i) (todos c),
                  toasts := toasts cur @ [success ''Todo deleted successfully!'']\<rparr>, d)"
proof -
  let ?wh = "\<lambda>r. todo_id r = i \<and> user_id r = uid"
  from assms have none: "\<forall>r \<in> set (public_todos d). \<not> (policy s (Some (user_id r)) \<and> ?wh r)" by simp
  have "pg_update_rows s ?wh (update_body cmpl) [] (public_todos d) = Inr ([] @ public_todos d, [])"
    using none by (rule pg_update_rows_no_target)
  then have upd: "pg_update s ?wh (update_body cmpl) d = Inr ([], d)"
    by (simp add: pg_update_def)
  from none have "filter (\<lambda>r. \<not> (policy s (Some (user_id r)) \<and> ?wh r)) (public_todos d) = public_todos d"
    by (simp add: filter_id_conv)
  then have del: "snd (pg_delete s ?wh d) = d"
    by (simp add: pg_delete_def)
  from upd del show ?thesis
    by (simp add: toggleTodo_def deleteTodo_def settle_def supabase_def)
qed

theorem stale_row_is_treated_as_success_witness:
  "map todo_id (public_todos db_two) = [''t1'', ''t2'']
   \<and> settle (toggleTodo (supabase (sess (Some alice) 30 ''t9'')) (Some alice) ''t7'' True
        (ready [row_a\<lparr>todo_id := ''t7'', completed := True\<rparr>] []))
        (ready [row_a\<lparr>todo_id := ''t7'', completed := True\<rparr>] []) db_two
       = (ready [row_a\<lparr>todo_id := ''t7'', completed := False\<rparr>] [], db_two)
   \<and> settle (deleteTodo (supabase (sess (Some alice) 30 ''t9'')) (Some alice) ''t7''
        (ready [row_a\<lparr>todo_id := ''t7'', completed := True\<rparr>] []))
        (ready [row_a\<lparr>todo_id := ''t7'', completed := True\<rparr>] []) db_two
       = ((ready [] [])\<lparr>toasts := [success ''Todo deleted successfully!'']\<rparr>, db_two)"
proof -
  have ids: "map todo_id (public_todos db_two) = [''t1'', ''t2'']" by (simp add: ex_defs)
  then have gone: "\<forall>r \<in> set (public_todos db_two). todo_id r \<noteq> ''t7''" by (simp add: ex_defs)
  from stale_row_is_treated_as_success [OF gone, where s = "sess (Some alice) 30 ''t9''" and uid = alice
      and cmpl = True and c = "ready [row_a\<lparr>todo_id := ''t7'', completed := True\<rparr>] []"
      and cur = "ready [row_a\<lparr>todo_id := ''t7'', completed := True\<rparr>] []"] ids
  show ?thesis by (simp add: ready_def)
qed

section \<open>Adding a todo\<close>




section \<open>Toggling\<close>




section \<open>The trigger\<close>

text \<open>
  An UPDATE of a row whose stored \<^verbatim>\<open>updated_at\<close> is ahead of \<^verbatim>\<open>now()\<close> lowers it, whatever
  value the client supplies; an UPDATE in the transaction that wrote the row (same
  \<^verbatim>\<open>now()\<close>) leaves it as it is.
\<close>

theorem updated_at_not_monotone_counterexample:
  "pg_update (sess (Some alice) 2 ''t4'') (\<lambda>r. todo_id r = ''t3'')
      ((update_body True)\<lparr>v_updated_at := Val 500\<rparr>) (db_empty\<lparr>public_todos := [row_future]\<rparr>)
     = Inr ([row_future\<lparr>completed := False, updated_at := 2\<rparr>],
            db_empty\<lparr>public_todos := [row_future\<lparr>completed := False, updated_at := 2\<rparr>]\<rparr>)
   \<and> updated_at (row_future\<lparr>completed := False, updated_at := 2\<rparr>) < updated_at row_future
   \<and> pg_update (sess (Some alice) 10 ''t4'') (\<lambda>r. todo_id r = ''t1'') (update_body False) db_two
     = Inr ([row_a\<lparr>completed := True\<rparr>], db_two\<lparr>public_todos := [row_a\<lparr>completed := True\<rparr>, row_b]\<rparr>)
   \<and> updated_at (row_a\<lparr>completed := True\<rparr>) = updated_at row_a"
  by (simp add: ex_defs pg_defs)

text \<open>
  C7, as the code has it. After a successful UPDATE every updated row has \<^verbatim>\<open>updated_at\<close>
  equal to the statement's \<^verbatim>\<open>now()\<close>, whatever the SET list says, and every other row is
  unchanged. Hence \<^verbatim>\<open>updated_at\<close> does not decrease when the stored value is not ahead of
  \<^verbatim>\<open>now()\<close>, and it changes when the stored value differs from \<^verbatim>\<open>now()\<close>.
\<close>

theorem trigger_sets_updated_at:
  assumes "pg_update s wh v d = Inr (upd, d')"
  shows "(\<forall>r \<in> set upd. updated_at r = now s) \<and>
     length (public_todos d') = length (public_todos d) \<and>
     (\<forall>k < length (public_todos d).
        (policy s (Some (user_id (public_todos d ! k))) \<and> wh (public_todos d ! k) \<longrightarrow>
           public_todos d' ! k \<in> set upd \<and>
           updated_at (public_todos d' ! k) = now s \<and>
           (updated_at (public_todos d ! k) \<le> now s \<longrightarrow>
              updated_at (public_todos d ! k) \<le> updated_at (public_todos d' ! k)) \<and>
           (updated_at (public_todos d ! k) \<noteq> now s \<longrightarrow>
              updated_at (public_todos d' ! k) \<noteq> updated_at (public_todos d ! k))) \<and>
        (\<not> (policy s (Some (user_id (public_todos d ! k))) \<and> wh (public_todos d ! k)) \<longrightarrow>
           public_todos d' ! k = public_todos d ! k))"
proof -
  from assms obtain tbl where rows: "pg_update_rows s wh v [] (public_todos d) = Inr (tbl, upd)"
    and d': "d' = d\<lparr>public_todos := tbl\<rparr>"
    by (auto simp: pg_update_def split: sum.splits)
  note shape = pg_update_rows_shape [OF rows]
  let ?T = "\<lambda>r. policy s (Some (user_id r)) \<and> wh r"
  from shape have tbl: "public_todos d' = map (\<lambda>r. if ?T r then updated_row s v r else r) (public_todos d)"
    by (simp add: d')
  from shape have upd: "upd = map (updated_row s v) (filter ?T (public_todos d))" by simp
  have stamp: "updated_at (updated_row s v r) = now s" for r
    by (simp add: updated_row_def)
  have 1: "\<forall>r \<in> set upd. updated_at r = now s"
    by (auto simp: upd stamp)
  have 2: "length (public_todos d') = length (public_todos d)"
    by (simp add: tbl)
  have 3: "public_todos d' ! k \<in> set upd \<and> updated_at (public_todos d' ! k) = now s"
    if "k < length (public_todos d)" "?T (public_todos d ! k)" for k
    using that by (auto simp: tbl upd stamp)
  have 4: "public_todos d' ! k = public_todos d ! k"
    if "k < length (public_todos d)" "\<not> ?T (public_todos d ! k)" for k
    using that by (auto simp: tbl)
  from 1 2 3 4 show ?thesis by force
qed

theorem trigger_sets_updated_at_witness:
  "pg_update (sess (Some alice) 30 ''t8'') (\<lambda>r. True)
      ((update_body False)\<lparr>v_updated_at := Val 7\<rparr>) db_three
     = Inr ([row_a\<lparr>completed := True, updated_at := 30\<rparr>, row_c\<lparr>completed := True, updated_at := 30\<rparr>],
            db_three\<lparr>public_todos := [row_a\<lparr>completed := True, updated_at := 30\<rparr>, row_b,
                                       row_c\<lparr>completed := True, updated_at := 30\<rparr>]\<rparr>)
   \<and> (0::nat) < length (public_todos db_three)
   \<and> policy (sess (Some alice) 30 ''t8'') (Some (user_id (public_todos db_three ! 0)))
   \<and> updated_at (public_todos db_three ! 0) \<le> now (sess (Some alice) 30 ''t8'')
   \<and> updated_at (public_todos db_three ! 0) \<noteq> now (sess (Some alice) 30 ''t8'')
   \<and> \<not> policy (sess (Some alice) 30 ''t8'') (Some (user_id (public_todos db_three ! 1)))
   \<and> map updated_at [row_a\<lparr>completed := True, updated_at := 30\<rparr>, row_c\<lparr>completed := True, updated_at := 30\<rparr>]
       = [30, 30]"
  using trigger_sets_updated_at [where s = "sess (Some alice) 30 ''t8''" and wh = "\<lambda>r. True"
      and v = "(update_body False)\<lparr>v_updated_at := Val 7\<rparr>" and d = db_three
      and upd = "[row_a\<lparr>completed := True, updated_at := 30\<rparr>, row_c\<lparr>completed := True, updated_at := 30\<rparr>]"
      and d' = "db_three\<lparr>public_todos := [row_a\<lparr>completed := True, updated_at := 30\<rparr>, row_b,
                                       row_c\<lparr>completed := True, updated_at := 30\<rparr>]\<rparr>"]
  by (simp add: ex_defs pg_defs)

section \<open>Blank input\<close>

text \<open>
  C8. When the trimmed input is empty, the add handler raises the error toast, leaves
  every other part of the state, the local list included, as it was, and returns with no
  request pending: none was sent, whatever the store is, so the store is untouched.
\<close>

theorem addTodo_rejects_blank:
  assumes "trim (newTodo c) = []"
  shows "addTodo b user c = (c\<lparr>toasts := toasts c @ [destructive ''Please enter a todo title'']\<rparr>, None)
     \<and> uninterrupted (addTodo b user c) w
         = (c\<lparr>toasts := toasts c @ [destructive ''Please enter a todo title'']\<rparr>, w)"
  using assms by (simp add: addTodo_def uninterrupted_def)

theorem addTodo_rejects_blank_witness:
  "trim (newTodo (ready [row_a] [0x20, 0x09, 0x3000])) = []
   \<and> addTodo unreachable (Some alice) (ready [row_a] [0x20, 0x09, 0x3000])
       = ((ready [row_a] [0x20, 0x09, 0x3000])\<lparr>toasts := [destructive ''Please enter a todo title'']\<rparr>, None)
   \<and> uninterrupted (addTodo unreachable (Some alice) (ready [row_a] [0x20, 0x09, 0x3000])) 0
       = ((ready [row_a] [0x20, 0x09, 0x3000])\<lparr>toasts := [destructive ''Please enter a todo title'']\<rparr>, 0)
   \<and> snd (uninterrupted (addTodo unreachable (Some alice) (ready [row_a] milk)) 0) = 1"
proof -
  have blank: "trim (newTodo (ready [row_a] [0x20, 0x09, 0x3000])) = []"
    by (simp add: ready_def trim_def isWhiteSpace_def)
  have t: "toasts (ready [row_a] [0x20, 0x09, 0x3000]) = []" by (simp add: ready_def)
  have sent: "snd (uninterrupted (addTodo unreachable (Some alice) (ready [row_a] milk)) 0) = 1"
    by (simp add: ex_defs ctl_defs trim_def isWhiteSpace_def)
  from addTodo_rejects_blank [OF blank, where b = unreachable and user = "Some alice" and w = 0]
    blank t sent
  show ?thesis by (simp add: uninterrupted_def)
qed

section \<open>The frame of a toggle\<close>




section \<open>The list after a fetch\<close>

text \<open>
  C10. The list starts empty. A fetch that succeeds with null data sets it to the empty
  list, one that succeeds with rows sets it to the rows, and one that fails or is rejected
  leaves it as it was when the reply arrived. The list is a list in every case.
\<close>

theorem fetchTodos_never_null:
  "todos initial = [] \<and>
   (select_eq_order b user w = (Success None, w') \<longrightarrow>
      todos (fst (settle (fetchTodos b user) cur w)) = []) \<and>
   (select_eq_order b user w = (Success (Some rows), w') \<longrightarrow>
      todos (fst (settle (fetchTodos b user) cur w)) = rows) \<and>
   (select_eq_order b user w = (Failure e, w') \<longrightarrow>
      todos (fst (settle (fetchTodos b user) cur w)) = todos cur) \<and>
   (select_eq_order b user w = (Thrown, w') \<longrightarrow>
      todos (fst (settle (fetchTodos b user) cur w)) = todos cur)"
  by (simp add: fetchTodos_def settle_def initial_def)

theorem fetchTodos_never_null_witness:
  "select_eq_order null_data (Some alice) 0 = (Success None, 1)
   \<and> todos (fst (settle (fetchTodos null_data (Some alice)) (ready [row_a] []) 0)) = []
   \<and> select_eq_order (supabase (sess (Some alice) 30 ''t8'')) (Some alice) db_three
       = (Success (Some [row_c, row_a]), db_three)
   \<and> todos (fst (settle (fetchTodos (supabase (sess (Some alice) 30 ''t8'')) (Some alice)) initial db_three))
       = [row_c, row_a]
   \<and> select_eq_order (supabase (sess None 30 ''t8'')) None db_three = (Failure Invalid_text_representation, db_three)
   \<and> todos (fst (settle (fetchTodos (supabase (sess None 30 ''t8'')) None) (ready [row_a] []) db_three)) = [row_a]
   \<and> select_eq_order unreachable (Some alice) 0 = (Thrown, 1)
   \<and> todos (fst (settle (fetchTodos unreachable (Some alice)) initial 0)) = []"
proof -
  have s1: "select_eq_order null_data (Some alice) 0 = (Success None, 1)" by (simp add: ex_defs)
  have s2: "select_eq_order (supabase (sess (Some alice) 30 ''t8'')) (Some alice) db_three
       = (Success (Some [row_c, row_a]), db_three)"
    by (simp add: ex_defs pg_defs)
  have s3: "select_eq_order (supabase (sess None 30 ''t8'')) None db_three
       = (Failure Invalid_text_representation, db_three)"
    by (simp add: ex_defs pg_defs)
  have s4: "select_eq_order unreachable (Some alice) 0 = (Thrown, 1)" by (simp add: ex_defs)
  have l: "todos (ready [row_a] []) = [row_a]" "todos initial = []" by (simp_all add: ready_def initial_def)
  from fetchTodos_never_null [where b = null_data and user = "Some alice" and w = 0 and w' = 1
      and cur = "ready [row_a] []"] s1
  have g1: "todos (fst (settle (fetchTodos null_data (Some alice)) (ready [row_a] []) 0)) = []" by blast
  from fetchTodos_never_null [where b = "supabase (sess (Some alice) 30 ''t8'')" and user = "Some alice"
      and w = db_three and w' = db_three and cur = initial and rows = "[row_c, row_a]"] s2
  have g2: "todos (fst (settle (fetchTodos (supabase (sess (Some alice) 30 ''t8'')) (Some alice)) initial db_three))
       = [row_c, row_a]" by blast
  from fetchTodos_never_null [where b = "supabase (sess None 30 ''t8'')" and user = None
      and w = db_three and w' = db_three and cur = "ready [row_a] []" and e = Invalid_text_representation] s3 l
  have g3: "todos (fst (settle (fetchTodos (supabase (sess None 30 ''t8'')) None) (ready [row_a] []) db_three)) = [row_a]"
    by simp
  from fetchTodos_never_null [where b = unreachable and user = "Some alice" and w = 0 and w' = 1
      and cur = initial] s4 l
  have g4: "todos (fst (settle (fetchTodos unreachable (Some alice)) initial 0)) = []" by simp
  from s1 g1 s2 g2 s3 g3 s4 g4 show ?thesis by simp
qed

end
